theory Spec2Isabelle
  imports Main "HOL-Library.Word"
begin

section \<open>Types, objects and memory\<close>

text \<open>
  \<^verbatim>\<open>Size.h\<close> declares one function template,
  \<^verbatim>\<open>template< typename Type, size_t size > constexpr size_t getSize(const Type (&)[size]) noexcept { return size; }\<close>
  once for \<^verbatim>\<open>ARDUINO\<close> with \<^verbatim>\<open>size_t\<close> and once with \<^verbatim>\<open>std::size_t\<close>. The two
  declarations differ in the namespace of the size type only, so one definition, polymorphic
  in the width \<open>'w\<close> of the size type, embeds both: \<open>'w word\<close> is \<^verbatim>\<open>size_t\<close>.

  What the template does is decided by the static type of its argument, so the embedding
  starts with the object types a call site can supply. The fundamental types are the ones
  the sketch and the README name; \<open>'b\<close> in \<open>ctype\<close> is any universe of non-array,
  non-pointer element types, and \<open>'s\<close> is the type of array bounds, always \<open>'w word\<close>
  below. Top-level \<^verbatim>\<open>const\<close> is left out: the parameter
  \<^verbatim>\<open>const Type (&)[size]\<close> binds arrays of const and of non-const elements alike.
\<close>

datatype fundamental =
  CBool | CChar | CSignedChar | CUnsignedChar | CShort | CUnsignedShort
  | CInt | CUnsignedInt | CLong | CUnsignedLong | CFloat | CDouble

datatype ('b, 's) ctype =
  Fundamental 'b
  | Pointer "('b, 's) ctype"
  | NullptrT
  | Array "('b, 's) ctype" 's

text \<open>
  An object in memory: a scalar, a pointer value (\<open>None\<close> is the null pointer) or the
  elements of an array, in order. A reference is the address of an object in the store.
\<close>

datatype 'v object =
  Scalar 'v
  | Address "nat option"
  | Elements "'v object list"

type_synonym 'v store = "nat \<Rightarrow> 'v object option"

text \<open>
  An object conforms to a type when it has the type's shape. An array of bound \<open>n\<close> holds
  exactly \<open>n\<close> conforming elements, and its bound is greater than zero: the bound of an
  array type is a constant of type \<^verbatim>\<open>std::size_t\<close> whose value is greater than zero.
\<close>

fun conforms :: "'v object \<Rightarrow> ('b, 'w::len word) ctype \<Rightarrow> bool" where
  "conforms (Scalar v) (Fundamental b) = True"
| "conforms (Address p) (Pointer T) = True"
| "conforms (Address p) NullptrT = (p = None)"
| "conforms (Elements es) (Array T n) =
     (n \<noteq> 0 \<and> length es = unat n \<and> list_all (\<lambda>e. conforms e T) es)"
| "conforms obj T = False"

text \<open>
  The argument expression of a call: its static type and the object it denotes.
\<close>

record ('b, 's) argument =
  arg_type :: "('b, 's) ctype"
  arg_ref :: nat

definition denotes_array :: "'v store \<Rightarrow> ('b, 'w::len word) argument \<Rightarrow> bool" where
  "denotes_array \<sigma> a =
     (case arg_type a of
        Array T n \<Rightarrow>
          (case \<sigma> (arg_ref a) of
             Some obj \<Rightarrow> conforms obj (Array T n)
           | None \<Rightarrow> False)
      | _ \<Rightarrow> False)"

section \<open>getSize\<close>

datatype failure = NoMatchingFunction | DivisionByZero

text \<open>
  The parameter declaration \<^verbatim>\<open>const Type (&)[size]\<close> is a pattern on the argument's
  type. Template argument deduction binds \<^verbatim>\<open>Type\<close> and \<^verbatim>\<open>size\<close> when the argument
  is an array, and fails for any other type: a reference to an array does not take a
  pointer, and no array-to-pointer conversion runs the other way. Deduction also fails where
  it would form an array type of bound zero: the bound of an array type is greater than
  zero, and an attempt to create an array of size zero is a deduction failure.
\<close>

fun deduce :: "('b, 'w::len word) ctype \<Rightarrow> (('b, 'w word) ctype \<times> 'w word) option" where
  "deduce (Array Type sz) = (if sz = 0 then None else Some (Type, sz))"
| "deduce (Fundamental b) = None"
| "deduce (Pointer T) = None"
| "deduce NullptrT = None"

text \<open>
  The specialisation \<^verbatim>\<open>getSize<Type, size>\<close>. Its parameter is an unnamed reference: the
  body cannot read it, and returns the template parameter. The store is passed through to
  make the effect of the call explicit.
\<close>

definition getSize ::
  "('b, 'w::len word) ctype \<Rightarrow> 'w word \<Rightarrow> nat \<Rightarrow> 'v store \<Rightarrow> 'w word \<times> 'v store" where
  "getSize Type sz ref \<sigma> = (sz, \<sigma>)"

text \<open>
  A call \<^verbatim>\<open>getSize(e)\<close>: deduction on the static type of \<^verbatim>\<open>e\<close>, then the specialisation
  it names. A failed deduction is a compile-time error: there is no call.
\<close>

definition getSize_call ::
  "('b, 'w::len word) argument \<Rightarrow> 'v store \<Rightarrow> failure + 'w word \<times> 'v store" where
  "getSize_call a \<sigma> =
     (case deduce (arg_type a) of
        None \<Rightarrow> Inl NoMatchingFunction
      | Some (Type, sz) \<Rightarrow> Inr (getSize Type sz (arg_ref a) \<sigma>))"


section \<open>The byte-ratio version of the README\<close>

text \<open>
  \<^verbatim>\<open>sizeof\<close> depends on the platform, which fixes the size of each fundamental type and
  of a pointer. The size of an array of \<open>n\<close> elements is \<open>n\<close> times the size of an
  element; \<^verbatim>\<open>sizeof\<close> yields a \<^verbatim>\<open>std::size_t\<close>.
\<close>

record ('b, 's) platform =
  sizeof_fundamental :: "'b \<Rightarrow> 's"
  sizeof_pointer :: 's

fun sizeof :: "('b, 'w::len word) platform \<Rightarrow> ('b, 'w word) ctype \<Rightarrow> 'w word" where
  "sizeof P (Fundamental b) = sizeof_fundamental P b"
| "sizeof P (Pointer T) = sizeof_pointer P"
| "sizeof P NullptrT = sizeof_pointer P"
| "sizeof P (Array T n) = n * sizeof P T"

text \<open>
  The README's template with the byte ratio,
  \<^verbatim>\<open>template< typename Type, std::size_t size > constexpr std::size_t getSize(const Type (&array)[size]) noexcept { return (sizeof(array) / sizeof(array[0])); }\<close>.
  \<^verbatim>\<open>sizeof\<close> reads the static type of its operand: \<^verbatim>\<open>array\<close> has type
  \<^verbatim>\<open>const Type[size]\<close> and \<^verbatim>\<open>array[0]\<close> has type \<^verbatim>\<open>const Type\<close>. Division by zero
  has no value in C++ and is a failure here.
\<close>

definition getSize_ratio ::
  "('b, 'w::len word) platform \<Rightarrow> ('b, 'w word) ctype \<Rightarrow> 'w word \<Rightarrow> nat \<Rightarrow> 'v store
     \<Rightarrow> failure + 'w word \<times> 'v store" where
  "getSize_ratio P Type sz array \<sigma> =
     (if sizeof P Type = 0 then Inl DivisionByZero
      else Inr (sizeof P (Array Type sz) div sizeof P Type, \<sigma>))"

definition getSize_ratio_call ::
  "('b, 'w::len word) platform \<Rightarrow> ('b, 'w word) argument \<Rightarrow> 'v store
     \<Rightarrow> failure + 'w word \<times> 'v store" where
  "getSize_ratio_call P a \<sigma> =
     (case deduce (arg_type a) of
        None \<Rightarrow> Inl NoMatchingFunction
      | Some (Type, sz) \<Rightarrow> getSize_ratio P Type sz (arg_ref a) \<sigma>)"

text \<open>
  The AVR environment of the README and of the sketch: \<^verbatim>\<open>size_t\<close> has 16 bits, a pointer
  and an \<^verbatim>\<open>int\<close> have 2 bytes.
\<close>

fun avr_sizeof :: "fundamental \<Rightarrow> 16 word" where
  "avr_sizeof CBool = 1"
| "avr_sizeof CChar = 1"
| "avr_sizeof CSignedChar = 1"
| "avr_sizeof CUnsignedChar = 1"
| "avr_sizeof CShort = 2"
| "avr_sizeof CUnsignedShort = 2"
| "avr_sizeof CInt = 2"
| "avr_sizeof CUnsignedInt = 2"
| "avr_sizeof CLong = 4"
| "avr_sizeof CUnsignedLong = 4"
| "avr_sizeof CFloat = 4"
| "avr_sizeof CDouble = 4"

definition avr :: "(fundamental, 16 word) platform" where
  "avr = \<lparr>sizeof_fundamental = avr_sizeof, sizeof_pointer = 2\<rparr>"

section \<open>The demo sketch\<close>

text \<open>
  The sketch declares three zero-initialised arrays,
  \<^verbatim>\<open>const char exampleA[8]\<close>, \<^verbatim>\<open>const int exampleB[4]\<close> and \<^verbatim>\<open>const uint8_t exampleC[10]\<close>
  (\<^verbatim>\<open>uint8_t\<close> is \<^verbatim>\<open>unsigned char\<close>). Each name is an expression of array type that
  denotes its object.
\<close>

definition exampleA :: "(fundamental, 16 word) argument" where
  "exampleA = \<lparr>arg_type = Array (Fundamental CChar) 8, arg_ref = 0\<rparr>"

definition exampleB :: "(fundamental, 16 word) argument" where
  "exampleB = \<lparr>arg_type = Array (Fundamental CInt) 4, arg_ref = 1\<rparr>"

definition exampleC :: "(fundamental, 16 word) argument" where
  "exampleC = \<lparr>arg_type = Array (Fundamental CUnsignedChar) 10, arg_ref = 2\<rparr>"

definition sketch_memory :: "int store" where
  "sketch_memory =
     (\<lambda>r. if r = 0 then Some (Elements (replicate 8 (Scalar 0)))
          else if r = 1 then Some (Elements (replicate 4 (Scalar 0)))
          else if r = 2 then Some (Elements (replicate 10 (Scalar 0)))
          else None)"

text \<open>
  \<^verbatim>\<open>Arduboy2\<close> is a library outside the repository. The sketch's effect on it is the
  sequence of calls it makes on the object \<^verbatim>\<open>arduboy\<close>; what \<^verbatim>\<open>nextFrame()\<close> returns
  is an input of \<^verbatim>\<open>loop\<close>.
\<close>

datatype 's call =
  Begin | NextFrame | Clear | Print string | Println 's | Display

record ('v, 's) sketch =
  memory :: "'v store"
  arduboy :: "'s call list"

definition call :: "'s call \<Rightarrow> ('v, 's) sketch \<Rightarrow> ('v, 's) sketch" where
  "call c s = s\<lparr>arduboy := arduboy s @ [c]\<rparr>"

text \<open>\<^verbatim>\<open>void setup()\<close>, renamed: it calls \<^verbatim>\<open>arduboy.begin()\<close>.\<close>

definition sketch_setup :: "('v, 's) sketch \<Rightarrow> ('v, 's) sketch" where
  "sketch_setup s = call Begin s"

text \<open>The statement \<^verbatim>\<open>arduboy.println(getSize(e));\<close>\<close>

definition println_getSize ::
  "('b, 'w::len word) argument \<Rightarrow> ('v, 'w word) sketch \<Rightarrow> failure + ('v, 'w word) sketch" where
  "println_getSize e s =
     (case getSize_call e (memory s) of
        Inl err \<Rightarrow> Inl err
      | Inr (n, \<sigma>) \<Rightarrow> Inr (call (Println n) (s\<lparr>memory := \<sigma>\<rparr>)))"

definition loop :: "bool \<Rightarrow> (int, 16 word) sketch \<Rightarrow> failure + (int, 16 word) sketch" where
  "loop next_frame s =
     (let s = call NextFrame s in
      if \<not> next_frame then Inr s
      else
        (let s = call Clear s;
             s = call (Print ''exampleA: '') s
         in (case println_getSize exampleA s of
               Inl err \<Rightarrow> Inl err
             | Inr s \<Rightarrow>
                 (let s = call (Print ''exampleB: '') s
                  in (case println_getSize exampleB s of
                        Inl err \<Rightarrow> Inl err
                      | Inr s \<Rightarrow>
                          (let s = call (Print ''exampleC: '') s
                           in (case println_getSize exampleC s of
                                 Inl err \<Rightarrow> Inl err
                               | Inr s \<Rightarrow> Inr (call Display s))))))))"

text \<open>The values an iteration prints: the numbers among the calls it adds.\<close>

fun printed_values :: "'s call list \<Rightarrow> 's list" where
  "printed_values [] = []"
| "printed_values (Println n # cs) = n # printed_values cs"
| "printed_values (c # cs) = printed_values cs"

text \<open>
  What one call of \<^verbatim>\<open>loop\<close> prints: the values of the calls it adds to those made
  before.
\<close>

definition loop_prints :: "bool \<Rightarrow> (int, 16 word) sketch \<Rightarrow> failure + 16 word list" where
  "loop_prints next_frame s =
     (case loop next_frame s of
        Inl err \<Rightarrow> Inl err
      | Inr s' \<Rightarrow> Inr (printed_values (drop (length (arduboy s)) (arduboy s'))))"

text \<open>The sketch when \<^verbatim>\<open>loop\<close> is first called: \<^verbatim>\<open>setup\<close> has run.\<close>

definition sketch_start :: "(int, 16 word) sketch" where
  "sketch_start = sketch_setup \<lparr>memory = sketch_memory, arduboy = []\<rparr>"

section \<open>Example memories\<close>

text \<open>
  A second store for concrete calls, with contents other than the sketch's zeros:
  \<^verbatim>\<open>int filled[4] = {3, 1, 4, 1}\<close>, \<^verbatim>\<open>char letters[4] = {'a', 'b', 'c', 'd'}\<close> and
  the pointer \<^verbatim>\<open>int * decayed = filled\<close>.
\<close>

definition filled_memory :: "int store" where
  "filled_memory =
     map_of
       [(7, Elements [Scalar 3, Scalar 1, Scalar 4, Scalar 1]),
        (8, Elements [Scalar 97, Scalar 98, Scalar 99, Scalar 100]),
        (9, Address (Some 7))]"

definition filled :: "(fundamental, 16 word) argument" where
  "filled = \<lparr>arg_type = Array (Fundamental CInt) 4, arg_ref = 7\<rparr>"

definition letters :: "(fundamental, 16 word) argument" where
  "letters = \<lparr>arg_type = Array (Fundamental CChar) 4, arg_ref = 8\<rparr>"

definition decayed :: "(fundamental, 16 word) argument" where
  "decayed = \<lparr>arg_type = Pointer (Fundamental CInt), arg_ref = 9\<rparr>"

text \<open>
  A third store, where address 0 holds an array object with no element, and an expression
  declared with bound 0 that denotes it.
\<close>

definition zero_length_memory :: "int store" where
  "zero_length_memory = map_of [(0, Elements [])]"

definition zero_length :: "(fundamental, 16 word) argument" where
  "zero_length = \<lparr>arg_type = Array (Fundamental CInt) 0, arg_ref = 0\<rparr>"

text \<open>
  A fourth store, for the GNU dialect's \<^verbatim>\<open>int rows[3][0]\<close>: three elements, each an array
  with no element, so the element type \<^verbatim>\<open>int[0]\<close> has size zero.
\<close>

definition rows_memory :: "int store" where
  "rows_memory = map_of [(0, Elements [Elements [], Elements [], Elements []])]"

definition rows :: "(fundamental, 16 word) argument" where
  "rows = \<lparr>arg_type = Array (Array (Fundamental CInt) 0) 3, arg_ref = 0\<rparr>"

section \<open>Deduction and the call\<close>

lemma getSize_call_array:
  "n \<noteq> 0 \<Longrightarrow> arg_type a = Array T n \<Longrightarrow> getSize_call a \<sigma> = Inr (n, \<sigma>)"
  by (simp add: getSize_call_def getSize_def)

lemma getSize_call_Inr_iff:
  "getSize_call a \<sigma> = Inr (w, \<sigma>') \<longleftrightarrow> (\<exists>T. arg_type a = Array T w) \<and> w \<noteq> 0 \<and> \<sigma>' = \<sigma>"
  by (cases "arg_type a") (auto simp: getSize_call_def getSize_def)

lemma denotes_arrayD:
  "denotes_array \<sigma> a \<Longrightarrow> \<exists>T n es. arg_type a = Array T n \<and> n \<noteq> 0 \<and>
     \<sigma> (arg_ref a) = Some (Elements es) \<and> length es = unat n"
  apply (cases "arg_type a"; simp add: denotes_array_def split: option.splits)
  subgoal for T n obj by (cases obj) auto
  done

lemma exampleB_type: "arg_type exampleB = Array (Fundamental CInt) 4"
  by (simp add: exampleB_def)

lemma filled_type: "arg_type filled = Array (Fundamental CInt) 4"
  by (simp add: filled_def)

lemma filled_denotes: "denotes_array filled_memory filled"
  by (simp add: denotes_array_def filled_def filled_memory_def)

lemma letters_denotes: "denotes_array filled_memory letters"
  by (simp add: denotes_array_def letters_def filled_memory_def)

text \<open>
  C1. For every element type \<open>T\<close> and every array of \<open>N\<close> elements of \<open>T\<close> (the object
  \<open>Elements es\<close> with \<open>N = length es\<close>, of type \<open>T[n]\<close>), the call of \<^verbatim>\<open>getSize\<close> on it
  compiles and returns \<open>n\<close>, and \<open>n\<close> read as a number is exactly \<open>N\<close>.
\<close>

theorem getSize_returns_length:
  assumes "arg_type a = Array T n"
    and "\<sigma> (arg_ref a) = Some (Elements es)"
    and "conforms (Elements es) (Array T n)"
  shows "getSize_call a \<sigma> = Inr (n, \<sigma>) \<and> unat n = length es"
  using assms by (simp add: getSize_call_array)

theorem getSize_returns_length_witness:
  "arg_type exampleB = Array (Fundamental CInt) 4
   \<and> sketch_memory (arg_ref exampleB) = Some (Elements (replicate 4 (Scalar 0)))
   \<and> conforms (Elements (replicate 4 (Scalar (0::int)))) (Array (Fundamental CInt) (4::16 word))
   \<and> getSize_call exampleB sketch_memory = Inr (4, sketch_memory)
   \<and> unat (4::16 word) = length (replicate 4 (Scalar (0::int)))"
proof -
  note t = exampleB_type
  have m: "sketch_memory (arg_ref exampleB) = Some (Elements (replicate 4 (Scalar 0)))"
    by (simp add: exampleB_def sketch_memory_def)
  have c: "conforms (Elements (replicate 4 (Scalar (0::int)))) (Array (Fundamental CInt) (4::16 word))"
    by (simp add: list_all_length)
  from getSize_returns_length [where a = exampleB and \<sigma> = sketch_memory, OF t m c] t m c
  show ?thesis by simp
qed

text \<open>
  C2. A call of \<^verbatim>\<open>getSize\<close> whose argument is a pointer is rejected at compile time
  (so is \<^verbatim>\<open>nullptr\<close>, and so is a value of a fundamental type), and whenever a call
  compiles and returns \<open>w\<close>, its argument is an array whose bound is \<open>w\<close>: no call compiles
  to a value other than the bound of its array argument.
\<close>

theorem getSize_rejects_pointers:
  "(arg_type a = Pointer T \<longrightarrow> getSize_call a \<sigma> = Inl NoMatchingFunction)
   \<and> (arg_type a = NullptrT \<longrightarrow> getSize_call a \<sigma> = Inl NoMatchingFunction)
   \<and> (arg_type a = Fundamental b \<longrightarrow> getSize_call a \<sigma> = Inl NoMatchingFunction)
   \<and> (getSize_call a \<sigma> = Inr (w, \<sigma>') \<longrightarrow> (\<exists>U. arg_type a = Array U w))"
  by (cases "arg_type a") (auto simp: getSize_call_def getSize_def split: if_splits)

theorem getSize_rejects_pointers_witness:
  "filled_memory (arg_ref decayed) = Some (Address (Some (arg_ref filled)))
   \<and> getSize_call decayed filled_memory = Inl NoMatchingFunction
   \<and> getSize_call filled filled_memory = Inr (4, filled_memory)
   \<and> arg_type filled = Array (Fundamental CInt) 4"
proof -
  have r: "getSize_call filled filled_memory = Inr (4, filled_memory)"
    by (simp add: getSize_call_def getSize_def filled_def)
  have p: "arg_type decayed = Pointer (Fundamental CInt)"
    by (simp add: decayed_def)
  have m: "filled_memory (arg_ref decayed) = Some (Address (Some (arg_ref filled)))"
    by (simp add: decayed_def filled_def filled_memory_def)
  from getSize_rejects_pointers
         [where a = decayed and T = "Fundamental CInt" and \<sigma> = filled_memory
            and w = 0 and \<sigma>' = filled_memory] p
  have "getSize_call decayed filled_memory = Inl NoMatchingFunction"
    by simp
  moreover from getSize_rejects_pointers
         [where a = filled and \<sigma> = filled_memory and w = 4 and \<sigma>' = filled_memory] r
  have "\<exists>U. arg_type filled = Array U 4" by blast
  then have "arg_type filled = Array (Fundamental CInt) 4"
    by (simp add: filled_def)
  ultimately show ?thesis using r m by simp
qed

section \<open>The byte ratio\<close>

lemma ratio_is_bound:
  assumes s: "sizeof P T \<noteq> 0"
    and b: "unat n * unat (sizeof P T) < 2 ^ LENGTH('w::len)"
  shows "sizeof P (Array T n) div sizeof P T = (n :: 'w word)"
proof -
  from s have z: "unat (sizeof P T) \<noteq> 0"
    by (simp add: unat_eq_zero)
  have "unat (n * sizeof P T div sizeof P T) = unat (n * sizeof P T) div unat (sizeof P T)"
    by (simp add: unat_div)
  also have "\<dots> = unat n * unat (sizeof P T) div unat (sizeof P T)"
    using b by (simp add: unat_mult_lem)
  also have "\<dots> = unat n" using z by simp
  finally show ?thesis by (simp add: word_unat_eq_iff)
qed

text \<open>
  C3, as the claim states it, fails for an element type of size zero. Both templates
  accept \<^verbatim>\<open>int rows[3][0]\<close>, with \<^verbatim>\<open>Type = int[0]\<close> and \<^verbatim>\<open>size = 3\<close>: the template of
  \<^verbatim>\<open>Size.h\<close> returns 3, and the byte ratio divides \<^verbatim>\<open>sizeof(rows)\<close> by
  \<^verbatim>\<open>sizeof(rows[0])\<close>, which is zero.
\<close>

theorem zero_size_element_counterexample:
  "getSize_call rows rows_memory = Inr (3, rows_memory)
   \<and> getSize_ratio_call avr rows rows_memory = Inl DivisionByZero
   \<and> getSize_ratio_call avr rows rows_memory \<noteq> getSize_call rows rows_memory"
  by (simp add: getSize_call_def getSize_def getSize_ratio_call_def getSize_ratio_def rows_def)

text \<open>
  C3, amended. For every element type \<open>T\<close> whose size is at least one byte and every bound
  \<open>n \<ge> 1\<close> for which the size of \<open>T[n]\<close>, \<open>n\<close> times the size of \<open>T\<close>, is a value of
  \<^verbatim>\<open>std::size_t\<close>, \<^verbatim>\<open>sizeof(array) / sizeof(array[0])\<close> is \<open>n\<close>; hence on these arrays the
  README's byte-ratio template and the template of \<^verbatim>\<open>Size.h\<close> return the same result, as
  specialisations and as calls.
\<close>

theorem ratio_equals_size:
  assumes "sizeof P T \<noteq> 0" and "n \<noteq> 0"
    and "unat n * unat (sizeof P T) < 2 ^ LENGTH('w::len)"
  shows "sizeof P (Array T n) div sizeof P T = (n :: 'w word)
         \<and> getSize_ratio P T n r \<sigma> = Inr (getSize T n r \<sigma>)
         \<and> (arg_type a = Array T n \<longrightarrow> getSize_ratio_call P a \<sigma> = getSize_call a \<sigma>)"
proof -
  note q = ratio_is_bound [OF assms(1,3)]
  have 1: "getSize_ratio P T n r' \<sigma> = Inr (getSize T n r' \<sigma>)" for r'
    using assms(1) q by (simp add: getSize_ratio_def getSize_def)
  have 2: "getSize_ratio_call P a \<sigma> = getSize_call a \<sigma>" if "arg_type a = Array T n"
    using that assms(2) 1 by (simp add: getSize_ratio_call_def getSize_call_def)
  from q 1 2 show ?thesis by blast
qed

theorem ratio_equals_size_witness:
  "sizeof avr (Fundamental CInt) \<noteq> 0 \<and> (4 :: 16 word) \<noteq> 0
   \<and> unat (4 :: 16 word) * unat (sizeof avr (Fundamental CInt)) < 2 ^ LENGTH(16)
   \<and> sizeof avr (Array (Fundamental CInt) 4) div sizeof avr (Fundamental CInt) = 4
   \<and> getSize_ratio avr (Fundamental CInt) 4 1 sketch_memory = Inr (4, sketch_memory)
   \<and> getSize_ratio_call avr exampleB sketch_memory = Inr (4, sketch_memory)"
proof -
  have s: "sizeof avr (Fundamental CInt) \<noteq> 0"
    by (simp add: avr_def)
  have n: "(4 :: 16 word) \<noteq> 0" by simp
  have b: "unat (4 :: 16 word) * unat (sizeof avr (Fundamental CInt)) < 2 ^ LENGTH(16)"
    by (simp add: avr_def)
  note t = exampleB_type
  from ratio_equals_size [OF s n b, where a = exampleB and \<sigma> = sketch_memory and r = 1] s n b t
  show ?thesis
    by (simp add: getSize_def getSize_call_array)
qed

section \<open>Lengths\<close>

lemma unat_of_nat_small:
  "16 \<le> LENGTH('w::len) \<Longrightarrow> N \<le> 65535 \<Longrightarrow> unat (of_nat N :: 'w word) = N"
proof -
  assume w: "16 \<le> LENGTH('w)" and n: "N \<le> 65535"
  have "(2::nat) ^ 16 \<le> 2 ^ LENGTH('w)"
    using w by (rule power_increasing) simp
  with n have "N < 2 ^ LENGTH('w)" by simp
  then show ?thesis by (simp add: unat_of_nat)
qed

text \<open>
  C4, as the claim states it, fails at \<open>N = 0\<close>: an array type has a bound greater than
  zero, so for a declared bound of 0 deduction fails and the call is rejected at compile
  time; no value is returned.
\<close>

theorem zero_length_counterexample:
  "getSize_call zero_length zero_length_memory = Inl NoMatchingFunction
   \<and> getSize_call zero_length zero_length_memory \<noteq> Inr (0, zero_length_memory)"
  by (simp add: getSize_call_def zero_length_def)

text \<open>
  C4, amended. Where \<^verbatim>\<open>size_t\<close> has at least 16 bits, for every array length \<open>N\<close> from
  1 up to 65535 (so up to a few hundred in particular), the call of \<^verbatim>\<open>getSize\<close> on an
  array declared with bound \<open>N\<close> returns a value that is exactly \<open>N\<close>.
\<close>

theorem getSize_lengths_from_one:
  assumes "16 \<le> LENGTH('w::len)" and "1 \<le> N" and "N \<le> 65535"
    and "arg_type a = Array T (of_nat N :: 'w word)"
  shows "\<exists>w. getSize_call a \<sigma> = Inr (w, \<sigma>) \<and> unat w = N"
proof -
  have u: "unat (of_nat N :: 'w word) = N"
    using assms(1,3) by (rule unat_of_nat_small)
  with assms(2) have "(of_nat N :: 'w word) \<noteq> 0"
    by (auto simp: unat_eq_zero [symmetric])
  then have "getSize_call a \<sigma> = Inr (of_nat N, \<sigma>)"
    using assms(4) by (rule getSize_call_array)
  with u show ?thesis by blast
qed

theorem getSize_lengths_from_one_witness:
  "16 \<le> LENGTH(16) \<and> (1::nat) \<le> 300 \<and> (300::nat) \<le> 65535
   \<and> (\<exists>w. getSize_call \<lparr>arg_type = Array (Fundamental CInt) (of_nat 300 :: 16 word), arg_ref = 0\<rparr>
            sketch_memory = Inr (w, sketch_memory) \<and> unat w = 300)"
  using getSize_lengths_from_one
          [where 'w = 16 and N = 300 and T = "Fundamental CInt" and \<sigma> = sketch_memory
             and a = "\<lparr>arg_type = Array (Fundamental CInt) (of_nat 300 :: 16 word), arg_ref = 0\<rparr>"]
  by simp

text \<open>
  C9. \<^verbatim>\<open>getSize\<close> returns its template parameter \<^verbatim>\<open>size\<close> in the type it was deduced
  in: for every \<open>N\<close> that \<^verbatim>\<open>size_t\<close> represents, the specialisation for \<open>size = N\<close> returns
  a value that reads as \<open>N\<close> both as an unsigned number (no truncation, no reduction modulo
  \<open>2 ^ LENGTH('w)\<close>) and as an integer (no change of sign), and a call on an array of
  declared length \<open>N\<close> returns that value.
\<close>

theorem getSize_no_truncation:
  assumes "N < 2 ^ LENGTH('w::len)"
  shows "fst (getSize T (of_nat N :: 'w word) r \<sigma>) = of_nat N
         \<and> unat (fst (getSize T (of_nat N :: 'w word) r \<sigma>)) = N
         \<and> uint (fst (getSize T (of_nat N :: 'w word) r \<sigma>)) = int N
         \<and> (0 < N \<longrightarrow> arg_type a = Array T (of_nat N :: 'w word) \<longrightarrow>
              (\<exists>w. getSize_call a \<sigma> = Inr (w, \<sigma>) \<and> unat w = N))"
proof -
  have u: "unat (of_nat N :: 'w word) = N"
    using assms by (simp add: unat_of_nat)
  have "\<exists>w. getSize_call a \<sigma> = Inr (w, \<sigma>) \<and> unat w = N"
    if "0 < N" and t: "arg_type a = Array T (of_nat N :: 'w word)"
  proof -
    from u \<open>0 < N\<close> have "(of_nat N :: 'w word) \<noteq> 0"
      by (auto simp: unat_eq_zero [symmetric])
    then have "getSize_call a \<sigma> = Inr (of_nat N, \<sigma>)"
      using t by (rule getSize_call_array)
    with u show ?thesis by blast
  qed
  with u show ?thesis
    by (simp add: getSize_def uint_nat)
qed

theorem getSize_no_truncation_witness:
  "(65535::nat) < 2 ^ LENGTH(16)
   \<and> unat (fst (getSize (Fundamental CChar) (of_nat 65535 :: 16 word) 0 sketch_memory)) = 65535
   \<and> uint (fst (getSize (Fundamental CChar) (of_nat 65535 :: 16 word) 0 sketch_memory)) = 65535
   \<and> (\<exists>w. getSize_call
             \<lparr>arg_type = Array (Fundamental CChar) (of_nat 65535 :: 16 word), arg_ref = 0\<rparr>
             sketch_memory = Inr (w, sketch_memory) \<and> unat w = 65535)"
  using getSize_no_truncation
          [where 'w = 16 and N = 65535 and T = "Fundamental CChar" and r = 0 and \<sigma> = sketch_memory
             and a = "\<lparr>arg_type = Array (Fundamental CChar) (of_nat 65535 :: 16 word), arg_ref = 0\<rparr>"]
  by simp

section \<open>Purity\<close>



text \<open>
  C6. For every array argument, of any element type and length, the call of \<^verbatim>\<open>getSize\<close>
  compiles, reaches the specialisation \<^verbatim>\<open>getSize<T, n>\<close>, which returns \<open>n\<close> and the store
  as it was, and is no failure: the function is total on arrays and has no error branch.
\<close>

theorem getSize_total:
  assumes "denotes_array \<sigma> a"
  shows "\<exists>T n. arg_type a = Array T n
           \<and> getSize_call a \<sigma> = Inr (getSize T n (arg_ref a) \<sigma>)
           \<and> getSize T n (arg_ref a) \<sigma> = (n, \<sigma>)
           \<and> getSize_call a \<sigma> \<noteq> Inl err"
proof -
  from denotes_arrayD [OF assms] obtain T n where t: "arg_type a = Array T n" and n: "n \<noteq> 0"
    by blast
  have "getSize_call a \<sigma> = Inr (n, \<sigma>)" using n t by (rule getSize_call_array)
  with t show ?thesis by (simp add: getSize_def)
qed

theorem getSize_total_witness:
  "denotes_array filled_memory filled
   \<and> getSize_call filled filled_memory = Inr (4, filled_memory)
   \<and> getSize_call filled filled_memory \<noteq> Inl NoMatchingFunction"
proof -
  from getSize_total [OF filled_denotes, where err = NoMatchingFunction]
  obtain T n where "arg_type filled = Array T n"
    and c: "getSize_call filled filled_memory = Inr (getSize T n (arg_ref filled) filled_memory)"
    and g: "getSize T n (arg_ref filled) filled_memory = (n, filled_memory)"
    and f: "getSize_call filled filled_memory \<noteq> Inl NoMatchingFunction"
    by blast
  then have "n = 4" by (simp add: filled_def)
  with c g f filled_denotes show ?thesis by simp
qed

text \<open>
  C10. A call of \<^verbatim>\<open>getSize\<close> that returns leaves the store as it was, so the contents
  of its argument and of every other object are unchanged, and it returns the same value in
  any other store \<open>\<tau>\<close>: it reads no state and writes none.
\<close>

theorem getSize_frame:
  assumes "getSize_call a \<sigma> = Inr (w, \<sigma>')"
  shows "\<sigma>' = \<sigma> \<and> \<sigma>' (arg_ref a) = \<sigma> (arg_ref a) \<and> getSize_call a \<tau> = Inr (w, \<tau>)"
  using assms by (auto simp: getSize_call_Inr_iff)

theorem getSize_frame_witness:
  "getSize_call exampleC sketch_memory = Inr (10, sketch_memory)
   \<and> getSize_call exampleC filled_memory = Inr (10, filled_memory)"
proof -
  have c: "getSize_call exampleC sketch_memory = Inr (10, sketch_memory)"
    by (simp add: getSize_call_def getSize_def exampleC_def)
  from getSize_frame [OF c, where \<tau> = filled_memory] c show ?thesis by simp
qed

text \<open>
  C7. For two arrays of different element types \<open>T\<close> and \<open>U\<close> and the same length \<open>n\<close>,
  deduction names two different specialisations, \<^verbatim>\<open>getSize<T, n>\<close> and
  \<^verbatim>\<open>getSize<U, n>\<close>, and each call returns \<open>n\<close>, the declared length of its own array.
\<close>

theorem getSize_independent_instantiations:
  assumes "T \<noteq> U" and "n \<noteq> 0" and "arg_type a = Array T n" and "arg_type b = Array U n"
  shows "deduce (arg_type a) = Some (T, n) \<and> deduce (arg_type b) = Some (U, n)
         \<and> deduce (arg_type a) \<noteq> deduce (arg_type b)
         \<and> getSize_call a \<sigma> = Inr (n, \<sigma>) \<and> getSize_call b \<sigma> = Inr (n, \<sigma>)"
  using assms by (simp add: getSize_call_array)

theorem getSize_independent_instantiations_witness:
  "Fundamental CChar \<noteq> (Fundamental CInt :: (fundamental, 16 word) ctype) \<and> (4 :: 16 word) \<noteq> 0
   \<and> denotes_array filled_memory letters \<and> denotes_array filled_memory filled
   \<and> deduce (arg_type letters) = Some (Fundamental CChar, 4)
   \<and> deduce (arg_type filled) = Some (Fundamental CInt, 4)
   \<and> getSize_call letters filled_memory = Inr (4, filled_memory)
   \<and> getSize_call filled filled_memory = Inr (4, filled_memory)"
proof -
  have 1: "Fundamental CChar \<noteq> (Fundamental CInt :: (fundamental, 16 word) ctype)" by simp
  have 2: "(4 :: 16 word) \<noteq> 0" by simp
  have 3: "arg_type letters = Array (Fundamental CChar) 4" by (simp add: letters_def)
  from getSize_independent_instantiations [OF 1 2 3 filled_type, where \<sigma> = filled_memory] 1 2
    letters_denotes filled_denotes
  show ?thesis by simp
qed

section \<open>The sketch\<close>

lemma println_getSize_array:
  "n \<noteq> 0 \<Longrightarrow> arg_type e = Array T n \<Longrightarrow>
     println_getSize e s = Inr (s\<lparr>arduboy := arduboy s @ [Println n]\<rparr>)"
  by (simp add: println_getSize_def getSize_call_array call_def)

lemma loop_frame:
  "loop True s = Inr (s\<lparr>arduboy := arduboy s @
     [NextFrame, Clear, Print ''exampleA: '', Println 8, Print ''exampleB: '', Println 4,
      Print ''exampleC: '', Println 10, Display]\<rparr>)"
proof -
  have a: "println_getSize exampleA s' = Inr (s'\<lparr>arduboy := arduboy s' @ [Println 8]\<rparr>)"
    for s' :: "(int, 16 word) sketch"
    by (rule println_getSize_array [where T = "Fundamental CChar"]) (simp_all add: exampleA_def)
  have b: "println_getSize exampleB s' = Inr (s'\<lparr>arduboy := arduboy s' @ [Println 4]\<rparr>)"
    for s' :: "(int, 16 word) sketch"
    by (rule println_getSize_array [where T = "Fundamental CInt"]) (simp_all add: exampleB_def)
  have c: "println_getSize exampleC s' = Inr (s'\<lparr>arduboy := arduboy s' @ [Println 10]\<rparr>)"
    for s' :: "(int, 16 word) sketch"
    by (rule println_getSize_array [where T = "Fundamental CUnsignedChar"])
      (simp_all add: exampleC_def)
  show ?thesis
    by (simp add: loop_def Let_def call_def a b c)
qed

lemma loop_skipped: "loop False s = Inr (s\<lparr>arduboy := arduboy s @ [NextFrame]\<rparr>)"
  by (simp add: loop_def Let_def call_def)

text \<open>
  C8, as the claim states it, fails for an iteration in which \<^verbatim>\<open>arduboy.nextFrame()\<close>
  returns false: \<^verbatim>\<open>loop\<close> returns at once and prints no value.
\<close>

theorem loop_skipped_counterexample:
  "loop_prints False sketch_start = Inr []
   \<and> loop_prints False sketch_start \<noteq> Inr [8, 4, 10]"
  by (simp add: loop_prints_def loop_skipped)

text \<open>
  C8, amended. \<^verbatim>\<open>getSize(exampleA)\<close> returns 8, \<^verbatim>\<open>getSize(exampleB)\<close> returns 4 and
  \<^verbatim>\<open>getSize(exampleC)\<close> returns 10, each the declared bound of its array, and every
  iteration of \<^verbatim>\<open>loop\<close> in which \<^verbatim>\<open>arduboy.nextFrame()\<close> returns true prints exactly
  these three values in that order.
\<close>

theorem demo_prints_sizes:
  "getSize_call exampleA \<sigma> = Inr (8, \<sigma>)
   \<and> getSize_call exampleB \<sigma> = Inr (4, \<sigma>)
   \<and> getSize_call exampleC \<sigma> = Inr (10, \<sigma>)
   \<and> (next_frame \<longrightarrow> loop_prints next_frame s = Inr [8, 4, 10])"
proof -
  have "getSize_call exampleA \<sigma> = Inr (8, \<sigma>)"
    by (simp add: getSize_call_def getSize_def exampleA_def)
  moreover have "getSize_call exampleB \<sigma> = Inr (4, \<sigma>)"
    by (simp add: getSize_call_def getSize_def exampleB_def)
  moreover have "getSize_call exampleC \<sigma> = Inr (10, \<sigma>)"
    by (simp add: getSize_call_def getSize_def exampleC_def)
  moreover have "loop_prints True s = Inr [8, 4, 10]"
    by (simp add: loop_prints_def loop_frame)
  ultimately show ?thesis by simp
qed

theorem demo_prints_sizes_witness:
  "getSize_call exampleA sketch_memory = Inr (8, sketch_memory)
   \<and> getSize_call exampleB sketch_memory = Inr (4, sketch_memory)
   \<and> getSize_call exampleC sketch_memory = Inr (10, sketch_memory)
   \<and> loop_prints True sketch_start = Inr [8, 4, 10]"
  using demo_prints_sizes [where \<sigma> = sketch_memory and next_frame = True and s = sketch_start]
  by simp

section \<open>Pointers and the byte-ratio template\<close>

text \<open>
  The README's byte-ratio template has the parameter of \<^verbatim>\<open>Size.h\<close>, and rejects a
  pointer as well.
\<close>

theorem ratio_rejects_pointers:
  "getSize_ratio_call P \<lparr>arg_type = Pointer T, arg_ref = r\<rparr> \<sigma> = Inl NoMatchingFunction"
  by (simp add: getSize_ratio_call_def)

end
